theory Spec2Isabelle
  imports Complex_Main
begin

section \<open>Common ground of the two engines\<close>

text \<open>
  The repository holds two programs, \<^verbatim>\<open>portfolio_backtest.py\<close> (periodic rebalancing) and
  \<^verbatim>\<open>strategy_backtest.py\<close> (moving-average crossover). Both define a class
  \<^verbatim>\<open>PortfolioBacktester\<close>; the definitions of the second carry the prefix \<open>strategy_\<close>
  or \<open>s_\<close> where a name would clash.

  Python and numpy floats are modelled as \<open>real\<close>: rounding, overflow and the infinities
  are outside the model, and so is a division by zero, which numpy answers with an
  infinity or NaN and HOL with 0; a theorem that depends on a quotient assumes its
  divisor is not zero. NaN is modelled by \<open>None\<close> in every place where the code
  produces or tests it (a missing row after a join or reindex, an incomplete rolling
  window). A timestamp is the exchange's millisecond count (\<^verbatim>\<open>unit='ms'\<close>). A price
  frame holds each timestamp once, as the exchange returns one bar per period.
\<close>

type_synonym symbol = string
type_synonym timestamp = int

datatype error = KeyError | IndexError | ValueError

definition day :: int where
  "day = 86400000"

section \<open>portfolio\_backtest.py: the rebalancing engine\<close>

text \<open>
  The fields of \<^verbatim>\<open>self\<close> that the simulation reads. \<open>data\<close> maps a symbol to its frame,
  of which only the index and the \<^verbatim>\<open>close\<close> column are read. \<open>rebalance_dates\<close> is the index of
  \<^verbatim>\<open>portfolio_df.resample(self.rebalance_period).first()\<close>, the labels of the periods of the
  rule; pandas computes it from the calendar, here it is given.
\<close>

record backtester =
  symbols :: "symbol list"
  weights :: "symbol \<rightharpoonup> real"
  initial_balance :: real
  start_date :: "timestamp option"
  end_date :: "timestamp option"
  rebalance_dates :: "timestamp list"
  trading_fee :: real
  slippage :: real
  data :: "symbol \<rightharpoonup> (timestamp \<times> real) list"

text \<open>The table \<^verbatim>\<open>portfolio_df\<close>, column by column.\<close>

record portfolio_df =
  index :: "timestamp list"
  Portfolio_Return :: "real list"
  Portfolio_Value :: "real list"

text \<open>\<^verbatim>\<open>pd.date_range(start, end, freq="D")\<close>; it refuses a missing bound.\<close>

definition date_range :: "timestamp option \<Rightarrow> timestamp option \<Rightarrow> error + timestamp list" where
  "date_range s e =
     (case s of None \<Rightarrow> Inl ValueError
      | Some a \<Rightarrow>
        (case e of None \<Rightarrow> Inl ValueError
         | Some b \<Rightarrow> Inr (map (\<lambda>k. a + int k * day) [0 ..< nat ((b - a) div day + 1)])))"

text \<open>\<^verbatim>\<open>Series.pct_change()\<close>: NaN in the first row, \<open>cur / prev - 1\<close> after it.\<close>

fun pct_change :: "real list \<Rightarrow> real option list" where
  "pct_change [] = []"
| "pct_change (x # xs) = None # map (\<lambda>(p, c). Some (c / p - 1)) (zip (x # xs) xs)"

text \<open>
  The column \<^verbatim>\<open>{symbol}_return\<close> after the left join onto the calendar and
  \<^verbatim>\<open>fillna(0)\<close>.
\<close>

definition return_column :: "(timestamp \<times> real) list \<Rightarrow> timestamp list \<Rightarrow> real list" where
  "return_column df idx =
     map (\<lambda>d. case map_of (zip (map fst df) (pct_change (map snd df))) d of
                 Some (Some r) \<Rightarrow> r
               | _ \<Rightarrow> 0) idx"

text \<open>
  The loop of \<^verbatim>\<open>calculate_portfolio_returns\<close>. \<^verbatim>\<open>self.data[symbol]\<close> raises KeyError for
  a symbol that was not fetched; the join raises ValueError when the column is already
  there, that is for a symbol listed twice.
\<close>

fun join_returns ::
  "(symbol \<rightharpoonup> (timestamp \<times> real) list) \<Rightarrow> timestamp list \<Rightarrow> symbol list \<Rightarrow>
   (symbol \<times> real list) list \<Rightarrow> error + (symbol \<times> real list) list" where
  "join_returns d idx [] cols = Inr cols"
| "join_returns d idx (s # ss) cols =
     (case d s of None \<Rightarrow> Inl KeyError
      | Some df \<Rightarrow>
          if s \<in> fst ` set cols then Inl ValueError
          else join_returns d idx ss (cols @ [(s, return_column df idx)]))"

text \<open>
  \<^verbatim>\<open>sum(portfolio_df[f"{symbol}_return"] * self.weights[symbol] for symbol in self.symbols)\<close>,
  row by row.
\<close>

fun blend :: "(symbol \<rightharpoonup> real) \<Rightarrow> nat \<Rightarrow> (symbol \<times> real list) list \<Rightarrow> error + real list" where
  "blend w n [] = Inr (replicate n 0)"
| "blend w n ((s, col) # cols) =
     (case w s of None \<Rightarrow> Inl KeyError
      | Some ws \<Rightarrow>
        (case blend w n cols of Inl e \<Rightarrow> Inl e
         | Inr acc \<Rightarrow> Inr (map (\<lambda>(r, a). r * ws + a) (zip col acc))))"

definition calculate_portfolio_returns :: "backtester \<Rightarrow> error + portfolio_df" where
  "calculate_portfolio_returns self =
     (case date_range (start_date self) (end_date self) of Inl e \<Rightarrow> Inl e
      | Inr idx \<Rightarrow>
        (case join_returns (data self) idx (symbols self) [] of Inl e \<Rightarrow> Inl e
         | Inr cols \<Rightarrow>
           (case blend (weights self) (length idx) cols of Inl e \<Rightarrow> Inl e
            | Inr rets \<Rightarrow>
                Inr \<lparr>index = idx, Portfolio_Return = rets, Portfolio_Value = []\<rparr>)))"

text \<open>
  \<^verbatim>\<open>self.data[symbol]["close"].reindex(portfolio_df.index).ffill()\<close>: the close of every
  calendar date, NaN where the frame has no bar, then each NaN replaced by the last value
  before it.
\<close>

definition reindex :: "(timestamp \<times> real) list \<Rightarrow> timestamp list \<Rightarrow> real option list" where
  "reindex df idx = map (map_of df) idx"

fun ffill_from :: "real option \<Rightarrow> real option list \<Rightarrow> real option list" where
  "ffill_from c [] = []"
| "ffill_from c (x # xs) =
     (case x of None \<Rightarrow> c # ffill_from c xs
      | Some v \<Rightarrow> Some v # ffill_from (Some v) xs)"

definition ffill :: "real option list \<Rightarrow> real option list" where
  "ffill xs = ffill_from None xs"

text \<open>The dictionary \<^verbatim>\<open>current_prices\<close> at row \<open>i\<close> of the calendar.\<close>

fun current_prices ::
  "(symbol \<rightharpoonup> (timestamp \<times> real) list) \<Rightarrow> timestamp list \<Rightarrow> nat \<Rightarrow> symbol list \<Rightarrow>
   error + (symbol \<times> real option) list" where
  "current_prices d idx i [] = Inr []"
| "current_prices d idx i (s # ss) =
     (case d s of None \<Rightarrow> Inl KeyError
      | Some df \<Rightarrow>
        (case current_prices d idx i ss of Inl e \<Rightarrow> Inl e
         | Inr ps \<Rightarrow> Inr ((s, ffill (reindex df idx) ! i) # ps)))"

text \<open>\<^verbatim>\<open>current_prices[symbol]\<close>, read after the NaN test has passed.\<close>

definition price_of :: "(symbol \<times> real option) list \<Rightarrow> symbol \<Rightarrow> real" where
  "price_of ps s = (case map_of ps s of Some (Some v) \<Rightarrow> v | _ \<Rightarrow> 0)"

text \<open>\<^verbatim>\<open>sum(current_prices[symbol] * self.weights[symbol] for symbol in self.symbols)\<close>\<close>

fun total_value :: "(symbol \<Rightarrow> real) \<Rightarrow> (symbol \<rightharpoonup> real) \<Rightarrow> symbol list \<Rightarrow> error + real" where
  "total_value p w [] = Inr 0"
| "total_value p w (s # ss) =
     (case w s of None \<Rightarrow> Inl KeyError
      | Some ws \<Rightarrow>
        (case total_value p w ss of Inl e \<Rightarrow> Inl e
         | Inr t \<Rightarrow> Inr (p s * ws + t)))"

text \<open>
  The loop \<^verbatim>\<open>for symbol in self.symbols: self.weights[symbol] = ... / total_value\<close>,
  which writes into the dictionary it reads.
\<close>

fun update_weights ::
  "(symbol \<Rightarrow> real) \<Rightarrow> real \<Rightarrow> symbol list \<Rightarrow> (symbol \<rightharpoonup> real) \<Rightarrow> error + (symbol \<rightharpoonup> real)" where
  "update_weights p tv [] w = Inr w"
| "update_weights p tv (s # ss) w =
     (case w s of None \<Rightarrow> Inl KeyError
      | Some ws \<Rightarrow> update_weights p tv ss (w(s \<mapsto> p s * ws / tv)))"

text \<open>Line 99, the write of \<^verbatim>\<open>Portfolio_Value\<close> at row \<open>i\<close>.\<close>

definition set_value :: "portfolio_df \<Rightarrow> nat \<Rightarrow> portfolio_df" where
  "set_value df i =
     df\<lparr>Portfolio_Value :=
          (Portfolio_Value df)[i := Portfolio_Value df ! (i - 1) * (1 + Portfolio_Return df ! i)]\<rparr>"

text \<open>
  One pass of the loop of \<^verbatim>\<open>run_backtest\<close>, lines 87 to 99. The \<^verbatim>\<open>continue\<close> of line 93
  ends the pass with the weights and the table as they were.
\<close>

definition loop_body ::
  "backtester \<Rightarrow> portfolio_df \<Rightarrow> nat \<Rightarrow> error + (backtester \<times> portfolio_df)" where
  "loop_body self df i =
     (if index df ! i \<in> set (rebalance_dates self) then
        (case current_prices (data self) (index df) i (symbols self) of Inl e \<Rightarrow> Inl e
         | Inr ps \<Rightarrow>
             if \<exists>p \<in> set ps. snd p = None then Inr (self, df)
             else
               (case total_value (price_of ps) (weights self) (symbols self) of Inl e \<Rightarrow> Inl e
                | Inr tv \<Rightarrow>
                  (case update_weights (price_of ps) tv (symbols self) (weights self) of
                     Inl e \<Rightarrow> Inl e
                   | Inr w \<Rightarrow> Inr (self\<lparr>weights := w\<rparr>, set_value df i))))
      else Inr (self, set_value df i))"

fun loop :: "backtester \<Rightarrow> portfolio_df \<Rightarrow> nat list \<Rightarrow> error + (backtester \<times> portfolio_df)" where
  "loop self df [] = Inr (self, df)"
| "loop self df (i # is) =
     (case loop_body self df i of Inl e \<Rightarrow> Inl e
      | Inr (self', df') \<Rightarrow> loop self' df' is)"

definition apply_trading_fees :: "backtester \<Rightarrow> portfolio_df \<Rightarrow> portfolio_df" where
  "apply_trading_fees self df =
     df\<lparr>Portfolio_Value :=
          map (\<lambda>v. v - (trading_fee self + slippage self) * v) (Portfolio_Value df)\<rparr>"

text \<open>
  The table as the loop of \<^verbatim>\<open>run_backtest\<close> leaves it, before the fees, together with
  the object, whose weights the loop has rewritten.
\<close>

definition accumulate :: "backtester \<Rightarrow> error + (backtester \<times> portfolio_df)" where
  "accumulate self =
     (case calculate_portfolio_returns self of Inl e \<Rightarrow> Inl e
      | Inr df \<Rightarrow>
          loop self
            (df\<lparr>Portfolio_Value := replicate (length (index df)) (initial_balance self)\<rparr>)
            [1 ..< length (index df)])"

definition run_backtest :: "backtester \<Rightarrow> error + (backtester \<times> portfolio_df)" where
  "run_backtest self =
     (case accumulate self of Inl e \<Rightarrow> Inl e
      | Inr (self', df) \<Rightarrow> Inr (self', apply_trading_fees self df))"

text \<open>
  \<^verbatim>\<open>calculate_mdd\<close>, the same in both files, on the column \<^verbatim>\<open>Portfolio_Value\<close>. The minimum
  of an empty column is NaN.
\<close>

fun cummax_from :: "real \<Rightarrow> real list \<Rightarrow> real list" where
  "cummax_from m [] = []"
| "cummax_from m (x # xs) = max m x # cummax_from (max m x) xs"

fun cummax :: "real list \<Rightarrow> real list" where
  "cummax [] = []"
| "cummax (x # xs) = x # cummax_from x xs"

definition drawdown :: "real list \<Rightarrow> real list" where
  "drawdown vs = map (\<lambda>(v, peak). (v - peak) / peak) (zip vs (cummax vs))"

definition calculate_mdd :: "real list \<Rightarrow> real option" where
  "calculate_mdd vs = (if vs = [] then None else Some (min_list (drawdown vs) * 100))"

definition calculate_total_return :: "real \<Rightarrow> real list \<Rightarrow> error + real" where
  "calculate_total_return ib vs =
     (if vs = [] then Inl IndexError else Inr ((last vs / ib - 1) * 100))"

text \<open>
  The second run of \<^verbatim>\<open>run_backtest\<close> on one object: it starts from the weights that the
  first run has left in \<^verbatim>\<open>self.weights\<close>.
\<close>

definition run_twice :: "backtester \<Rightarrow> error + (portfolio_df \<times> portfolio_df)" where
  "run_twice self =
     (case run_backtest self of Inl e \<Rightarrow> Inl e
      | Inr (self', df1) \<Rightarrow>
        (case run_backtest self' of Inl e \<Rightarrow> Inl e
         | Inr (self'', df2) \<Rightarrow> Inr (df1, df2)))"

text \<open>Observations of a result: the value column, and the weight of a symbol.\<close>

definition values_of :: "error + (backtester \<times> portfolio_df) \<Rightarrow> real list option" where
  "values_of r = (case r of Inl e \<Rightarrow> None | Inr (self, df) \<Rightarrow> Some (Portfolio_Value df))"

definition weights_of :: "error + (backtester \<times> portfolio_df) \<Rightarrow> symbol \<Rightarrow> real option" where
  "weights_of r s = (case r of Inl e \<Rightarrow> None | Inr (self, df) \<Rightarrow> weights self s)"

text \<open>The exception that ended a run, if one did.\<close>

definition error_of :: "error + 'a \<Rightarrow> error option" where
  "error_of r = (case r of Inl e \<Rightarrow> Some e | Inr x \<Rightarrow> None)"

section \<open>strategy\_backtest.py: the signal engine\<close>

text \<open>
  A row of a price frame: the index, the \<^verbatim>\<open>close\<close> column, and the three columns that
  \<^verbatim>\<open>apply_strategy\<close> writes. A fetched frame does not have these three yet; nothing reads
  them before \<^verbatim>\<open>apply_strategy\<close> has written them.
\<close>

record row =
  ts :: timestamp
  close :: real
  SMA_short :: "real option"
  SMA_long :: "real option"
  Signal :: int

record strategy_backtester =
  s_symbols :: "symbol list"
  short_window :: nat
  long_window :: nat
  s_initial_balance :: real
  s_trading_fee :: real
  s_data :: "symbol \<rightharpoonup> row list"
  positions :: "symbol \<rightharpoonup> real"

text \<open>
  \<^verbatim>\<open>Series.rolling(window=w).mean()\<close>: NaN until \<open>w\<close> rows are there, then the mean of the
  last \<open>w\<close> values.
\<close>

definition rolling_mean :: "nat \<Rightarrow> real list \<Rightarrow> real option list" where
  "rolling_mean w xs =
     map (\<lambda>t. if w = 0 \<or> Suc t < w then None
              else Some (sum_list (take w (drop (Suc t - w) xs)) / real w))
         [0 ..< length xs]"

text \<open>A comparison with NaN is false.\<close>

definition gt_nan :: "real option \<Rightarrow> real option \<Rightarrow> bool" where
  "gt_nan a b = (case a of None \<Rightarrow> False | Some x \<Rightarrow> (case b of None \<Rightarrow> False | Some y \<Rightarrow> x > y))"

definition lt_nan :: "real option \<Rightarrow> real option \<Rightarrow> bool" where
  "lt_nan a b = (case a of None \<Rightarrow> False | Some x \<Rightarrow> (case b of None \<Rightarrow> False | Some y \<Rightarrow> x < y))"

text \<open>
  The body of the loop of \<^verbatim>\<open>apply_strategy\<close> on one frame: the two averages, \<^verbatim>\<open>dropna\<close>,
  then the signal, set to 0, to 1 where the short average is above, to -1 where it is below.
\<close>

definition set_signal :: "row \<Rightarrow> row" where
  "set_signal r =
     (let s0 = 0;
          s1 = (if gt_nan (SMA_short r) (SMA_long r) then 1 else s0);
          s2 = (if lt_nan (SMA_short r) (SMA_long r) then - 1 else s1)
      in r\<lparr>Signal := s2\<rparr>)"

definition strategy_frame :: "nat \<Rightarrow> nat \<Rightarrow> row list \<Rightarrow> row list" where
  "strategy_frame sw lw df =
     (let c = map close df;
          df1 = map (\<lambda>(r, a, b). r\<lparr>SMA_short := a, SMA_long := b\<rparr>)
                    (zip df (zip (rolling_mean sw c) (rolling_mean lw c)));
          df2 = filter (\<lambda>r. SMA_short r \<noteq> None \<and> SMA_long r \<noteq> None) df1
      in map set_signal df2)"

fun apply_strategy_loop ::
  "nat \<Rightarrow> nat \<Rightarrow> symbol list \<Rightarrow> (symbol \<rightharpoonup> row list) \<Rightarrow> error + (symbol \<rightharpoonup> row list)" where
  "apply_strategy_loop sw lw [] d = Inr d"
| "apply_strategy_loop sw lw (s # ss) d =
     (case d s of None \<Rightarrow> Inl KeyError
      | Some df \<Rightarrow> apply_strategy_loop sw lw ss (d(s \<mapsto> strategy_frame sw lw df)))"

definition apply_strategy :: "strategy_backtester \<Rightarrow> error + strategy_backtester" where
  "apply_strategy self =
     (case apply_strategy_loop (short_window self) (long_window self) (s_symbols self) (s_data self) of
        Inl e \<Rightarrow> Inl e
      | Inr d \<Rightarrow> Inr (self\<lparr>s_data := d\<rparr>))"

text \<open>
  Lines 69 to 84 of \<^verbatim>\<open>run_backtest\<close>, for one symbol on one date. The state is the object
  (its \<open>positions\<close>), \<^verbatim>\<open>portfolio_value\<close> and \<^verbatim>\<open>daily_value\<close>.
\<close>

definition symbol_step ::
  "timestamp \<Rightarrow> strategy_backtester \<times> real \<times> real \<Rightarrow> symbol \<Rightarrow>
   error + (strategy_backtester \<times> real \<times> real)" where
  "symbol_step date st s =
     (case st of (self, portfolio_value, daily_value) \<Rightarrow>
      (case s_data self s of None \<Rightarrow> Inl KeyError
       | Some df \<Rightarrow>
         (case find (\<lambda>r. ts r = date) df of None \<Rightarrow> Inr (self, portfolio_value, daily_value)
          | Some r \<Rightarrow>
            (case positions self s of None \<Rightarrow> Inl KeyError
             | Some pos \<Rightarrow>
                 let n = real (length (s_symbols self)); price = close r in
                 if Signal r = 1 \<and> pos = 0 then
                   Inr (self\<lparr>positions := (positions self)(s \<mapsto> (portfolio_value / n) / price)\<rparr>,
                        portfolio_value - (portfolio_value / n) * s_trading_fee self,
                        daily_value + ((portfolio_value / n) / price) * price)
                 else if Signal r = - 1 \<and> pos > 0 then
                   Inr (self\<lparr>positions := (positions self)(s \<mapsto> 0)\<rparr>,
                        portfolio_value + pos * price - (pos * price) * s_trading_fee self,
                        daily_value + 0 * price)
                 else Inr (self, portfolio_value, daily_value + pos * price)))))"

fun symbol_loop ::
  "timestamp \<Rightarrow> strategy_backtester \<times> real \<times> real \<Rightarrow> symbol list \<Rightarrow>
   error + (strategy_backtester \<times> real \<times> real)" where
  "symbol_loop date st [] = Inr st"
| "symbol_loop date st (s # ss) =
     (case symbol_step date st s of Inl e \<Rightarrow> Inl e
      | Inr st' \<Rightarrow> symbol_loop date st' ss)"

text \<open>
  The loop over the dates: the object and \<^verbatim>\<open>portfolio_value\<close> pass from date to date,
  \<^verbatim>\<open>daily_value\<close> starts at 0 on each, and each date appends one record.
\<close>

fun date_loop ::
  "timestamp list \<Rightarrow> strategy_backtester \<Rightarrow> real \<Rightarrow>
   error + (strategy_backtester \<times> (timestamp \<times> real) list)" where
  "date_loop [] self portfolio_value = Inr (self, [])"
| "date_loop (date # dates) self portfolio_value =
     (case symbol_loop date (self, portfolio_value, 0) (s_symbols self) of Inl e \<Rightarrow> Inl e
      | Inr (self', portfolio_value', daily_value) \<Rightarrow>
        (case date_loop dates self' portfolio_value' of Inl e \<Rightarrow> Inl e
         | Inr (self'', history) \<Rightarrow>
             Inr (self'', (date, portfolio_value' + daily_value) # history)))"

definition strategy_run_backtest ::
  "strategy_backtester \<Rightarrow> error + (strategy_backtester \<times> (timestamp \<times> real) list)" where
  "strategy_run_backtest self =
     (case s_symbols self of [] \<Rightarrow> Inl IndexError
      | s0 # rest \<Rightarrow>
        (case s_data self s0 of None \<Rightarrow> Inl KeyError
         | Some df0 \<Rightarrow> date_loop (map ts df0) self (s_initial_balance self)))"

text \<open>
  \<^verbatim>\<open>calculate_cagr\<close>. \<open>Percent x\<close> stands for the string \<^verbatim>\<open>f"{x:.2f}%"\<close>. The attribute
  \<^verbatim>\<open>.days\<close> of a time difference is its whole days, rounded down.
\<close>

datatype cagr = NA | Percent real

definition days :: "timestamp \<Rightarrow> int" where
  "days delta = delta div day"

definition calculate_cagr :: "real \<Rightarrow> (timestamp \<times> real) list \<Rightarrow> error + cagr" where
  "calculate_cagr start_value df =
     (if df = [] then Inl IndexError
      else
        let end_value = snd (last df);
            num_years = real_of_int (days (fst (last df) - fst (hd df))) / 365
        in if num_years \<le> 0 then Inr NA
           else Inr (Percent (((end_value / start_value) powr (1 / num_years) - 1) * 100)))"

text \<open>
  The pipeline of the main program on an object that may have run before:
  \<^verbatim>\<open>fetch_data\<close> puts the fetched frames into \<^verbatim>\<open>self.data\<close>, then \<^verbatim>\<open>apply_strategy\<close> and
  \<^verbatim>\<open>run_backtest\<close>.
\<close>

definition strategy_pipeline ::
  "(symbol \<rightharpoonup> row list) \<Rightarrow> strategy_backtester \<Rightarrow>
   error + (strategy_backtester \<times> (timestamp \<times> real) list)" where
  "strategy_pipeline fetched self =
     (case apply_strategy (self\<lparr>s_data := fetched\<rparr>) of Inl e \<Rightarrow> Inl e
      | Inr self' \<Rightarrow> strategy_run_backtest self')"

definition strategy_run_twice ::
  "(symbol \<rightharpoonup> row list) \<Rightarrow> strategy_backtester \<Rightarrow>
   error + ((timestamp \<times> real) list \<times> (timestamp \<times> real) list)" where
  "strategy_run_twice fetched self =
     (case strategy_pipeline fetched self of Inl e \<Rightarrow> Inl e
      | Inr (self', h1) \<Rightarrow>
        (case strategy_pipeline fetched self' of Inl e \<Rightarrow> Inl e
         | Inr (self'', h2) \<Rightarrow> Inr (h1, h2)))"

definition history_of ::
  "error + (strategy_backtester \<times> (timestamp \<times> real) list) \<Rightarrow> (timestamp \<times> real) list option" where
  "history_of r = (case r of Inl e \<Rightarrow> None | Inr (self, h) \<Rightarrow> Some h)"

definition positions_of ::
  "error + (strategy_backtester \<times> (timestamp \<times> real) list) \<Rightarrow> symbol \<Rightarrow> real option" where
  "positions_of r s = (case r of Inl e \<Rightarrow> None | Inr (self, h) \<Rightarrow> positions self s)"

text \<open>A frame without the rows whose date is not among \<open>ds\<close>, for every symbol.\<close>

definition restrict_to :: "timestamp list \<Rightarrow> (symbol \<rightharpoonup> row list) \<Rightarrow> (symbol \<rightharpoonup> row list)" where
  "restrict_to ds d = (\<lambda>s. map_option (filter (\<lambda>r. ts r \<in> set ds)) (d s))"

section \<open>Concrete runs\<close>

text \<open>
  Four calendar days, 30 January to 2 February 2022, with the month starts that
  \<^verbatim>\<open>resample("MS")\<close> labels them with. Instrument B has its first bar on 2 February, so
  on the rebalance date, 1 February, its forward-filled price is NaN.
\<close>

definition jan30 :: timestamp where "jan30 = 1643500800000"
definition jan31 :: timestamp where "jan31 = 1643587200000"
definition feb01 :: timestamp where "feb01 = 1643673600000"
definition feb02 :: timestamp where "feb02 = 1643760000000"

definition late_listing :: backtester where
  "late_listing =
     \<lparr>symbols = [''A'', ''B''],
      weights = [''A'' \<mapsto> 1 / 2, ''B'' \<mapsto> 1 / 2],
      initial_balance = 10000,
      start_date = Some jan30,
      end_date = Some feb02,
      rebalance_dates = [1640995200000, feb01],
      trading_fee = 1 / 1000,
      slippage = 5 / 10000,
      data = [''A'' \<mapsto> [(jan30, 100), (jan31, 110), (feb01, 121), (feb02, 1331 / 10)],
              ''B'' \<mapsto> [(feb02, 50)]]\<rparr>"

text \<open>The table of that run when the loop reaches 1 February, row 2.\<close>

definition late_listing_df :: portfolio_df where
  "late_listing_df =
     \<lparr>index = [jan30, jan31, feb01, feb02],
      Portfolio_Return = [0, 1 / 20, 1 / 20, 1 / 20],
      Portfolio_Value = [10000, 10500, 10000, 10000]\<rparr>"

text \<open>The same configuration when the fetch of B has failed: B is not in \<open>data\<close>.\<close>

definition failed_fetch :: backtester where
  "failed_fetch =
     late_listing\<lparr>data := [''A'' \<mapsto> [(jan30, 100), (jan31, 110), (feb01, 121), (feb02, 1331 / 10)]]\<rparr>"

text \<open>
  Three days, 31 January to 2 February. The price of A doubles from 100 to 200 on the
  rebalance date and B stays at 50.
\<close>

definition drift :: backtester where
  "drift =
     \<lparr>symbols = [''A'', ''B''],
      weights = [''A'' \<mapsto> 1 / 2, ''B'' \<mapsto> 1 / 2],
      initial_balance = 10000,
      start_date = Some jan31,
      end_date = Some feb02,
      rebalance_dates = [1640995200000, feb01],
      trading_fee = 1 / 1000,
      slippage = 5 / 10000,
      data = [''A'' \<mapsto> [(jan31, 100), (feb01, 200), (feb02, 220)],
              ''B'' \<mapsto> [(jan31, 50), (feb01, 50), (feb02, 50)]]\<rparr>"

text \<open>The same days with both prices at 100 when the weights are set.\<close>

definition level_start :: backtester where
  "level_start =
     drift\<lparr>data := [''A'' \<mapsto> [(jan31, 100), (feb01, 200), (feb02, 220)],
                     ''B'' \<mapsto> [(jan31, 100), (feb01, 100), (feb02, 100)]]\<rparr>"

definition level_start_df :: portfolio_df where
  "level_start_df =
     \<lparr>index = [jan31, feb01, feb02],
      Portfolio_Return = [0, 1 / 2, 1 / 20],
      Portfolio_Value = [10000, 10000, 10000]\<rparr>"


text \<open>
  A row as \<^verbatim>\<open>fetch_data\<close> delivers it. The columns of \<^verbatim>\<open>apply_strategy\<close> are not there yet
  and their content here is never read.
\<close>

definition bar :: "timestamp \<Rightarrow> real \<Rightarrow> row" where
  "bar t c = \<lparr>ts = t, close = c, SMA_short = None, SMA_long = None, Signal = 0\<rparr>"

text \<open>
  One instrument with windows 1 and 3 and fee \<open>f\<close>. With the closes 10, 130, 100, 100 the
  averages leave two rows, both at the close 100: a Buy on 1 February (100 above 80) and
  a Sell on 2 February (100 below 110).
\<close>

definition round_trip :: "real \<Rightarrow> strategy_backtester" where
  "round_trip f =
     \<lparr>s_symbols = [''BTC''],
      short_window = 1,
      long_window = 3,
      s_initial_balance = 10000,
      s_trading_fee = f,
      s_data = [''BTC'' \<mapsto> [bar jan30 10, bar jan31 130, bar feb01 100, bar feb02 100]],
      positions = [''BTC'' \<mapsto> 0]\<rparr>"

definition round_trip_frame :: "row list" where
  "round_trip_frame =
     [\<lparr>ts = feb01, close = 100, SMA_short = Some 100, SMA_long = Some 80, Signal = 1\<rparr>,
      \<lparr>ts = feb02, close = 100, SMA_short = Some 100, SMA_long = Some 110, Signal = - 1\<rparr>]"

text \<open>
  One instrument with windows 1 and 2 whose closes 100, 110, 120 give a Buy on the second
  day and no Sell after it: the run ends with the position open.
\<close>

definition open_end :: strategy_backtester where
  "open_end =
     \<lparr>s_symbols = [''BTC''],
      short_window = 1,
      long_window = 2,
      s_initial_balance = 10000,
      s_trading_fee = 1 / 1000,
      s_data = [''BTC'' \<mapsto> [bar jan30 100, bar jan31 110, bar feb01 120]],
      positions = [''BTC'' \<mapsto> 0]\<rparr>"

text \<open>
  Two instruments, prepared. The frame of ETH has a row on 30 January, a date that the
  frame of BTC, the first symbol, does not have, and that row carries a Buy.
\<close>

definition two_assets :: strategy_backtester where
  "two_assets =
     \<lparr>s_symbols = [''BTC'', ''ETH''],
      short_window = 1,
      long_window = 2,
      s_initial_balance = 10000,
      s_trading_fee = 1 / 1000,
      s_data =
        [''BTC'' \<mapsto>
           [\<lparr>ts = jan31, close = 110, SMA_short = Some 110, SMA_long = Some 105, Signal = 1\<rparr>,
            \<lparr>ts = feb01, close = 100, SMA_short = Some 100, SMA_long = Some 105, Signal = - 1\<rparr>],
         ''ETH'' \<mapsto>
           [\<lparr>ts = jan30, close = 20, SMA_short = Some 20, SMA_long = Some 15, Signal = 1\<rparr>,
            \<lparr>ts = jan31, close = 10, SMA_short = Some 10, SMA_long = Some 15, Signal = - 1\<rparr>,
            \<lparr>ts = feb01, close = 10, SMA_short = Some 10, SMA_long = Some 10, Signal = 0\<rparr>]],
      positions = [''BTC'' \<mapsto> 0, ''ETH'' \<mapsto> 0]\<rparr>"

text \<open>
  One instrument with windows 1 and 2. The closes 100, 110, 100, 100 leave three rows:
  a Buy, a Sell, and a row where the two averages are equal.
\<close>

definition crossover :: strategy_backtester where
  "crossover =
     \<lparr>s_symbols = [''BTC''],
      short_window = 1,
      long_window = 2,
      s_initial_balance = 10000,
      s_trading_fee = 1 / 1000,
      s_data = [''BTC'' \<mapsto> [bar jan30 100, bar jan31 110, bar feb01 100, bar feb02 100]],
      positions = [''BTC'' \<mapsto> 0]\<rparr>"

definition crossover_frame :: "row list" where
  "crossover_frame =
     [\<lparr>ts = jan31, close = 110, SMA_short = Some 110, SMA_long = Some 105, Signal = 1\<rparr>,
      \<lparr>ts = feb01, close = 100, SMA_short = Some 100, SMA_long = Some 105, Signal = - 1\<rparr>,
      \<lparr>ts = feb02, close = 100, SMA_short = Some 100, SMA_long = Some 100, Signal = 0\<rparr>]"

text \<open>The frame of BTC in \<open>two_assets\<close>.\<close>

definition two_assets_frame :: "row list" where
  "two_assets_frame =
     [\<lparr>ts = jan31, close = 110, SMA_short = Some 110, SMA_long = Some 105, Signal = 1\<rparr>,
      \<lparr>ts = feb01, close = 100, SMA_short = Some 100, SMA_long = Some 105, Signal = - 1\<rparr>]"

text \<open>Noon of 30 January 2022, and 30 January 2023, 365 days after \<open>jan30\<close>.\<close>

definition jan30_noon :: timestamp where "jan30_noon = 1643544000000"
definition jan30_2023 :: timestamp where "jan30_2023 = 1675036800000"

text \<open>
  An object whose frames have lost the rows dated outside \<open>D\<close>, and the same change made
  to the object inside a result.
\<close>

definition restricted :: "timestamp list \<Rightarrow> strategy_backtester \<Rightarrow> strategy_backtester" where
  "restricted D self = self\<lparr>s_data := restrict_to D (s_data self)\<rparr>"

definition lift3 ::
  "timestamp list \<Rightarrow> error + (strategy_backtester \<times> real \<times> real) \<Rightarrow>
   error + (strategy_backtester \<times> real \<times> real)" where
  "lift3 D r = (case r of Inl e \<Rightarrow> Inl e | Inr (x, p, d) \<Rightarrow> Inr (restricted D x, p, d))"

definition lift2 ::
  "timestamp list \<Rightarrow> error + (strategy_backtester \<times> (timestamp \<times> real) list) \<Rightarrow>
   error + (strategy_backtester \<times> (timestamp \<times> real) list)" where
  "lift2 D r = (case r of Inl e \<Rightarrow> Inl e | Inr (x, h) \<Rightarrow> Inr (restricted D x, h))"

section \<open>Properties of the rebalancing engine\<close>

lemma total_value_sum:
  "set ss \<subseteq> dom w \<Longrightarrow> total_value p w ss = Inr (\<Sum>s\<leftarrow>ss. p s * the (w s))"
  by (induction ss) (auto split: option.splits sum.splits)

lemma update_weights_result:
  "distinct ss \<Longrightarrow> set ss \<subseteq> dom w \<Longrightarrow>
   update_weights p tv ss w =
     Inr (\<lambda>s. if s \<in> set ss then Some (p s * the (w s) / tv) else w s)"
proof (induction ss arbitrary: w)
  case Nil
  then show ?case by simp
next
  case (Cons a ss)
  from Cons.prems obtain wa where wa: "w a = Some wa" by auto
  have d: "distinct ss" and na: "a \<notin> set ss" using Cons.prems by auto
  have sub: "set ss \<subseteq> dom (w(a \<mapsto> p a * wa / tv))" using Cons.prems by auto
  show ?case
    using wa na by (auto simp: Cons.IH [OF d sub] fun_eq_iff)
qed

lemma loop_body_rebalance:
  assumes "distinct (symbols self)"
    and "index df ! i \<in> set (rebalance_dates self)"
    and "current_prices (data self) (index df) i (symbols self) = Inr ps"
    and "\<forall>p \<in> set ps. snd p \<noteq> None"
    and "set (symbols self) \<subseteq> dom (weights self)"
  shows "loop_body self df i =
          Inr (self\<lparr>weights := (\<lambda>s. if s \<in> set (symbols self)
                       then Some (price_of ps s * the (weights self s) /
                                  (\<Sum>t\<leftarrow>symbols self. price_of ps t * the (weights self t)))
                       else weights self s)\<rparr>, set_value df i)"
proof -
  have nn: "\<not> (\<exists>p \<in> set ps. snd p = None)" using assms(4) by blast
  have upd: "update_weights (price_of ps)
               (\<Sum>t\<leftarrow>symbols self. price_of ps t * the (weights self t))
               (symbols self) (weights self) =
             Inr (\<lambda>s. if s \<in> set (symbols self)
                       then Some (price_of ps s * the (weights self s) /
                                  (\<Sum>t\<leftarrow>symbols self. price_of ps t * the (weights self t)))
                       else weights self s)"
    using assms(1,5) by (rule update_weights_result)
  show ?thesis
    unfolding loop_body_def
    by (simp only: assms(2,3) nn if_True if_False sum.case total_value_sum [OF assms(5)] upd)
qed

text \<open>
  C1, at a concrete run. The claim: on every date after the first the value becomes
  \<open>V[t-1] * (1 + PortfolioReturn[t])\<close>, also on a rebalance date whose prices are not all
  there. In the run \<open>late_listing\<close> the returns are 0, 1/20, 1/20, 1/20 and 1 February is
  such a date: the \<^verbatim>\<open>continue\<close> leaves its value at the seed 10000, not at
  \<open>10500 * (1 + 1/20)\<close>, and the day after starts again from 10000. The last line is
  the value column that \<^verbatim>\<open>run_backtest\<close> returns, after the fees.
\<close>

theorem skipped_date_keeps_seed_value:
  "calculate_portfolio_returns late_listing = Inr (late_listing_df\<lparr>Portfolio_Value := []\<rparr>) \<and>
   values_of (accumulate late_listing) = Some [10000, 10500, 10000, 10500] \<and>
   values_of (run_backtest late_listing) = Some [9985, 41937 / 4, 9985, 41937 / 4]"
  by code_simp

text \<open>
  C3, as amended. On a rebalance date where every price is there, with no symbol listed
  twice and a sum that is not zero, each new weight is
  \<open>price[s] * oldWeight[s] / \<Sum> price * oldWeight\<close>. The prices are those of the
  date itself, so weights 1/2 and 1/2 become 2/3 and 1/3 when the price of A is twice
  the price of B on that date.
\<close>

theorem rebalance_formula:
  assumes "distinct (symbols self)"
    and "index df ! i \<in> set (rebalance_dates self)"
    and "current_prices (data self) (index df) i (symbols self) = Inr ps"
    and "\<forall>p \<in> set ps. snd p \<noteq> None"
    and "set (symbols self) \<subseteq> dom (weights self)"
    and "(\<Sum>t\<leftarrow>symbols self. price_of ps t * the (weights self t)) \<noteq> 0"
  shows "\<exists>self' df'. loop_body self df i = Inr (self', df') \<and>
           (\<forall>s \<in> set (symbols self).
              weights self' s =
                Some (price_of ps s * the (weights self s) /
                      (\<Sum>t\<leftarrow>symbols self. price_of ps t * the (weights self t)))) \<and>
           (\<forall>a b. symbols self = [a, b] \<and> weights self a = Some (1 / 2) \<and>
                  weights self b = Some (1 / 2) \<and> price_of ps a = 2 * price_of ps b \<longrightarrow>
                  weights self' a = Some (2 / 3) \<and> weights self' b = Some (1 / 3))"
proof -
  let ?tv = "\<Sum>t\<leftarrow>symbols self. price_of ps t * the (weights self t)"
  let ?w = "\<lambda>s. if s \<in> set (symbols self)
                 then Some (price_of ps s * the (weights self s) / ?tv) else weights self s"
  have lb: "loop_body self df i = Inr (self\<lparr>weights := ?w\<rparr>, set_value df i)"
    using assms(1-5) by (rule loop_body_rebalance)
  have ex: "symbols self = [a, b] \<Longrightarrow> weights self a = Some (1 / 2) \<Longrightarrow>
            weights self b = Some (1 / 2) \<Longrightarrow> price_of ps a = 2 * price_of ps b \<Longrightarrow>
            ?w a = Some (2 / 3) \<and> ?w b = Some (1 / 3)" for a b
  proof -
    assume s: "symbols self = [a, b]" and wa: "weights self a = Some (1 / 2)"
      and wb: "weights self b = Some (1 / 2)" and p: "price_of ps a = 2 * price_of ps b"
    have tv: "?tv = 3 / 2 * price_of ps b" using s wa wb p by simp
    with assms(6) have nz: "price_of ps b \<noteq> 0" by auto
    show ?thesis using s wa wb p nz by (simp add: tv)
  qed
  show ?thesis
    using lb ex by auto
qed

text \<open>
  The theorem at the run \<open>level_start\<close>: both prices are 100 when the weights are set,
  100 and 200 become 200 and 100 on 1 February, and the weights become 2/3 and 1/3.
\<close>

theorem rebalance_formula_witness:
  "distinct (symbols level_start) \<and>
   index level_start_df ! 1 \<in> set (rebalance_dates level_start) \<and>
   current_prices (data level_start) (index level_start_df) 1 (symbols level_start) =
     Inr [(''A'', Some 200), (''B'', Some 100)] \<and>
   set (symbols level_start) \<subseteq> dom (weights level_start) \<and>
   (\<exists>self' df'. loop_body level_start level_start_df 1 = Inr (self', df') \<and>
      weights self' ''A'' = Some (2 / 3) \<and> weights self' ''B'' = Some (1 / 3))"
proof -
  let ?ps = "[(''A'', Some (200::real)), (''B'', Some 100)]"
  have h1: "distinct (symbols level_start)" by code_simp
  have h2: "index level_start_df ! 1 \<in> set (rebalance_dates level_start)" by code_simp
  have h3: "current_prices (data level_start) (index level_start_df) 1 (symbols level_start) =
     Inr ?ps" by code_simp
  have h4: "\<forall>p \<in> set ?ps. snd p \<noteq> None" by simp
  have h5: "set (symbols level_start) \<subseteq> dom (weights level_start)"
    by (simp add: level_start_def drift_def)
  have s: "symbols level_start = [''A'', ''B'']" by (simp add: level_start_def drift_def)
  have wa: "weights level_start ''A'' = Some (1 / 2)" by (simp add: level_start_def drift_def)
  have wb: "weights level_start ''B'' = Some (1 / 2)" by (simp add: level_start_def drift_def)
  have pa: "price_of ?ps ''A'' = 200" and pb: "price_of ?ps ''B'' = 100"
    by (simp_all add: price_of_def)
  have h6: "(\<Sum>t\<leftarrow>symbols level_start. price_of ?ps t * the (weights level_start t)) \<noteq> 0"
    by (simp add: s wa wb pa pb)
  from rebalance_formula [OF h1 h2 h3 h4 h5 h6] obtain self' df' where
    lb: "loop_body level_start level_start_df 1 = Inr (self', df')" and
    ex: "\<forall>a b. symbols level_start = [a, b] \<and> weights level_start a = Some (1 / 2) \<and>
                  weights level_start b = Some (1 / 2) \<and> price_of ?ps a = 2 * price_of ?ps b \<longrightarrow>
                  weights self' a = Some (2 / 3) \<and> weights self' b = Some (1 / 3)"
    by blast
  have "weights self' ''A'' = Some (2 / 3) \<and> weights self' ''B'' = Some (1 / 3)"
    using ex s wa wb pa pb by simp
  with lb h1 h2 h3 h5 show ?thesis by blast
qed

text \<open>
  The claim C3 as it stands fails at the run \<open>drift\<close>: the weights are 1/2 and 1/2, the
  price of A doubles from 100 to 200 while B holds at 50, and the rebalance of
  1 February leaves the weights 4/5 and 1/5, not 2/3 and 1/3.
\<close>

theorem doubled_price_counterexample:
  "weights drift ''A'' = Some (1 / 2) \<and> weights drift ''B'' = Some (1 / 2) \<and>
   data drift ''A'' = Some [(jan31, 100), (feb01, 200), (feb02, 220)] \<and>
   data drift ''B'' = Some [(jan31, 50), (feb01, 50), (feb02, 50)] \<and>
   weights_of (run_backtest drift) ''A'' = Some (4 / 5) \<and>
   weights_of (run_backtest drift) ''B'' = Some (1 / 5) \<and>
   weights_of (run_backtest drift) ''A'' \<noteq> Some (2 / 3)"
  by code_simp

text \<open>
  C4, at a concrete run. The claim: an instrument of the symbol list that is absent from
  \<open>data\<close> contributes zero and \<^verbatim>\<open>calculate_portfolio_returns\<close> completes. In
  \<open>failed_fetch\<close> the instrument B is absent: \<^verbatim>\<open>self.data[symbol]\<close> raises KeyError, and
  \<^verbatim>\<open>run_backtest\<close> ends with it.
\<close>

theorem absent_instrument_raises:
  "data failed_fetch ''B'' = None \<and>
   calculate_portfolio_returns failed_fetch = Inl KeyError \<and>
   error_of (run_backtest failed_fetch) = Some KeyError"
  by code_simp

text \<open>
  C5. On a rebalance date where the forward-filled price of some tracked instrument
  is NaN, the pass of the loop ends with the weight map it started with.
\<close>

theorem skip_keeps_weights:
  assumes "index df ! i \<in> set (rebalance_dates self)"
    and "current_prices (data self) (index df) i (symbols self) = Inr ps"
    and "\<exists>p \<in> set ps. snd p = None"
  shows "\<exists>self' df'. loop_body self df i = Inr (self', df') \<and> weights self' = weights self"
  using assms by (simp add: loop_body_def)

text \<open>
  The theorem at the run \<open>late_listing\<close> on 1 February, where the price of B is NaN.
\<close>

theorem skip_keeps_weights_witness:
  "index late_listing_df ! 2 \<in> set (rebalance_dates late_listing) \<and>
   current_prices (data late_listing) (index late_listing_df) 2 (symbols late_listing) =
     Inr [(''A'', Some 121), (''B'', None)] \<and>
   (\<exists>self' df'. loop_body late_listing late_listing_df 2 = Inr (self', df') \<and>
      weights self' = weights late_listing)"
proof -
  have h1: "index late_listing_df ! 2 \<in> set (rebalance_dates late_listing)"
    by code_simp
  have h2: "current_prices (data late_listing) (index late_listing_df) 2 (symbols late_listing) =
     Inr [(''A'', Some 121), (''B'', None)]"
    by code_simp
  have h3: "\<exists>p \<in> set [(''A'', Some (121::real)), (''B'', None)]. snd p = None"
    by simp
  show ?thesis
    using h1 h2 skip_keeps_weights [OF h1 h2 h3] by simp
qed

lemma update_weights_other:
  "update_weights p tv ss w = Inr w' \<Longrightarrow> s \<notin> set ss \<Longrightarrow> w' s = w s"
  by (induction ss arbitrary: w) (auto split: option.splits)

lemma loop_body_frame:
  assumes "loop_body self df i = Inr (self', df')"
  shows "self' = self\<lparr>weights := weights self'\<rparr> \<and>
         (\<forall>s. s \<notin> set (symbols self) \<longrightarrow> weights self' s = weights self s)"
proof (cases "index df ! i \<in> set (rebalance_dates self)")
  case False
  with assms show ?thesis by (simp add: loop_body_def)
next
  case True
  with assms obtain ps where
    ps: "current_prices (data self) (index df) i (symbols self) = Inr ps"
    by (auto simp: loop_body_def split: sum.splits)
  show ?thesis
  proof (cases "\<exists>p \<in> set ps. snd p = None")
    case True
    with assms \<open>index df ! i \<in> set (rebalance_dates self)\<close> ps show ?thesis
      by (simp add: loop_body_def)
  next
    case False
    with assms \<open>index df ! i \<in> set (rebalance_dates self)\<close> ps obtain tv w where
      "update_weights (price_of ps) tv (symbols self) (weights self) = Inr w"
      and "self' = self\<lparr>weights := w\<rparr>"
      by (auto simp: loop_body_def split: sum.splits)
    then show ?thesis using update_weights_other by auto
  qed
qed

lemma loop_frame:
  "loop self df is = Inr (self', df') \<Longrightarrow>
   self' = self\<lparr>weights := weights self'\<rparr> \<and>
   (\<forall>s. s \<notin> set (symbols self) \<longrightarrow> weights self' s = weights self s)"
proof (induction "is" arbitrary: self df)
  case Nil
  then show ?case by simp
next
  case (Cons i "is")
  from Cons.prems obtain self1 df1 where
    b: "loop_body self df i = Inr (self1, df1)" and l: "loop self1 df1 is = Inr (self', df')"
    by (auto split: sum.splits)
  from loop_body_frame [OF b] have
    s1: "self1 = self\<lparr>weights := weights self1\<rparr>"
    and o1: "\<forall>s. s \<notin> set (symbols self) \<longrightarrow> weights self1 s = weights self s"
    by auto
  from Cons.IH [OF l] have
    s2: "self' = self1\<lparr>weights := weights self'\<rparr>"
    and o2: "\<forall>s. s \<notin> set (symbols self1) \<longrightarrow> weights self' s = weights self1 s"
    by auto
  have sy: "symbols self1 = symbols self" by (subst s1) simp
  have "self' = self\<lparr>weights := weights self'\<rparr>"
    by (subst s2, subst s1) simp
  with o1 o2 sy show ?case by simp
qed

lemma run_backtest_frame:
  assumes "run_backtest self = Inr (self', df)"
  shows "self' = self\<lparr>weights := weights self'\<rparr> \<and>
         (\<forall>s. s \<notin> set (symbols self) \<longrightarrow> weights self' s = weights self s)"
proof -
  from assms obtain df0 js df1 where "loop self df0 js = Inr (self', df1)"
    by (auto simp: run_backtest_def accumulate_def split: sum.splits)
  then show ?thesis by (rule loop_frame)
qed

lemma run_twice_same:
  assumes "\<forall>s \<in> set (symbols self). weights_of (run_backtest self) s = weights self s"
  shows "run_twice self =
           (case run_backtest self of Inl e \<Rightarrow> Inl e | Inr (self', df) \<Rightarrow> Inr (df, df))"
proof (cases "run_backtest self")
  case (Inl e)
  then show ?thesis by (simp add: run_twice_def)
next
  case (Inr r)
  obtain self' df where r: "r = (self', df)" by (cases r)
  from run_backtest_frame [OF Inr [unfolded r]] have
    s: "self' = self\<lparr>weights := weights self'\<rparr>"
    and o: "\<forall>s. s \<notin> set (symbols self) \<longrightarrow> weights self' s = weights self s"
    by auto
  have "weights self' s = weights self s" for s
    using assms o Inr r by (cases "s \<in> set (symbols self)") (auto simp: weights_of_def)
  then have "weights self' = weights self" by (rule ext)
  with s have "self' = self" by simp
  with Inr r show ?thesis by (simp add: run_twice_def)
qed

section \<open>Properties of the metrics\<close>

lemma length_cummax_from: "length (cummax_from m xs) = length xs"
  by (induction xs arbitrary: m) auto

lemma cummax_from_bounds:
  "(v, peak) \<in> set (zip xs (cummax_from m xs)) \<Longrightarrow> v \<le> peak \<and> m \<le> peak"
proof (induction xs arbitrary: m)
  case Nil
  then show ?case by simp
next
  case (Cons x xs)
  from Cons.prems consider "v = x \<and> peak = max m x"
    | "(v, peak) \<in> set (zip xs (cummax_from (max m x) xs))"
    by auto
  then show ?case
  proof cases
    case 1
    then show ?thesis by simp
  next
    case 2
    from Cons.IH [OF 2] show ?thesis by simp
  qed
qed

lemma cummax_bounds:
  "(v, peak) \<in> set (zip vs (cummax vs)) \<Longrightarrow> v \<le> peak"
  by (cases vs) (auto dest: cummax_from_bounds)

lemma cummax_from_sorted:
  "sorted (m # xs) \<Longrightarrow> cummax_from m xs = xs"
  by (induction xs arbitrary: m) (auto simp: max_def)

lemma cummax_sorted: "sorted vs \<Longrightarrow> cummax vs = vs"
  by (cases vs) (auto simp: cummax_from_sorted)

lemma drawdown_nonpos:
  assumes "\<forall>v \<in> set vs. 0 < v" and "d \<in> set (drawdown vs)"
  shows "d \<le> 0"
proof -
  from assms(2) obtain v peak where m: "(v, peak) \<in> set (zip vs (cummax vs))"
    and d: "d = (v - peak) / peak"
    by (auto simp: drawdown_def)
  have le: "v \<le> peak" using m by (rule cummax_bounds)
  have "v \<in> set vs" using m by (rule set_zip_leftD)
  with assms(1) have "0 < v" by blast
  with le have "0 < peak" by linarith
  with le show ?thesis unfolding d by (simp add: divide_le_0_iff)
qed

lemma length_drawdown: "length (drawdown vs) = length vs"
  by (cases vs) (simp_all add: drawdown_def length_cummax_from)

lemma drawdown_sorted:
  assumes "sorted vs"
  shows "drawdown vs = map (\<lambda>v. 0) vs"
  by (simp add: drawdown_def cummax_sorted [OF assms] zip_same_conv_map)

lemma min_list_const:
  assumes "xs \<noteq> []"
  shows "min_list (map (\<lambda>v. 0::real) xs) = 0"
proof -
  have "set (map (\<lambda>v. 0::real) xs) = {0}" using assms by (cases xs) auto
  then show ?thesis using assms by (simp add: min_list_Min)
qed

text \<open>
  C8. For a non-empty series of positive values the maximum drawdown is at most 0, and
  it is 0 when the series never decreases.
\<close>

theorem mdd_nonpositive:
  assumes "vs \<noteq> []" and "\<forall>v \<in> set vs. 0 < v"
  shows "\<exists>m. calculate_mdd vs = Some m \<and> m \<le> 0 \<and> (sorted vs \<longrightarrow> m = 0)"
proof -
  have ne: "drawdown vs \<noteq> []" using assms(1) length_drawdown [of vs] by auto
  have "min_list (drawdown vs) \<in> set (drawdown vs)"
    using ne by (simp add: min_list_Min)
  then have "min_list (drawdown vs) \<le> 0" using assms(2) drawdown_nonpos by blast
  then have le: "min_list (drawdown vs) * 100 \<le> 0" by simp
  have "sorted vs \<Longrightarrow> min_list (drawdown vs) * 100 = 0"
    using assms(1) by (simp add: drawdown_sorted min_list_const)
  with le show ?thesis using assms(1) by (simp add: calculate_mdd_def)
qed

text \<open>The theorem at a series with a fall of a quarter, and at one that never falls.\<close>

theorem mdd_nonpositive_witness:
  "[10000, 12000, 9000, 15000] \<noteq> ([]::real list) \<and>
   list_all (\<lambda>v. 0 < v) [10000, 12000, 9000, 15000::real] \<and>
   calculate_mdd [10000, 12000, 9000, 15000] = Some (- 25) \<and>
   sorted [10000, 12000, 12000, 15000::real] \<and>
   calculate_mdd [10000, 12000, 12000, 15000] = Some 0"
proof -
  have a1: "[10000, 12000, 9000, 15000] \<noteq> ([]::real list)" by simp
  have a2: "\<forall>v \<in> set [10000, 12000, 9000, 15000::real]. 0 < v" by simp
  have b1: "[10000, 12000, 12000, 15000] \<noteq> ([]::real list)" by simp
  have b2: "\<forall>v \<in> set [10000, 12000, 12000, 15000::real]. 0 < v" by simp
  have b3: "sorted [10000, 12000, 12000, 15000::real]" by simp
  have c: "calculate_mdd [10000, 12000, 9000, 15000] = Some (- 25)"
    by (simp add: calculate_mdd_def drawdown_def)
  from mdd_nonpositive [OF a1 a2] c have "(- 25::real) \<le> 0" by simp
  from mdd_nonpositive [OF b1 b2] b3
  have d: "calculate_mdd [10000, 12000, 12000, 15000] = Some 0" by blast
  have a3: "list_all (\<lambda>v. 0 < v) [10000, 12000, 9000, 15000::real]" by simp
  show ?thesis
    using a1 a3 b3 c d by blast
qed

lemma day_pos: "0 < day"
  by (simp add: day_def)

lemma days_le_0: "days d \<le> 0 \<longleftrightarrow> d < day"
  using pos_imp_zdiv_pos_iff [OF day_pos, of d] by (auto simp: days_def)

text \<open>
  C7, as amended. On a non-empty series \<^verbatim>\<open>calculate_cagr\<close> does not raise. It returns
  "N/A" exactly when the whole days between the first and the last timestamp, rounded
  down, are zero or negative, which is when the last timestamp is less than one day
  after the first; otherwise it returns
  \<open>((finalValue / initialBalance) ** (365 / days) - 1) * 100\<close> as a percentage. The
  power of the model is the real power, which is the power of the floats for a positive
  base.
\<close>

theorem cagr_whole_days:
  assumes "df \<noteq> []"
  shows "(\<exists>r. calculate_cagr ib df = Inr r) \<and>
         (calculate_cagr ib df = Inr NA \<longleftrightarrow> days (fst (last df) - fst (hd df)) \<le> 0) \<and>
         (days (fst (last df) - fst (hd df)) \<le> 0 \<longleftrightarrow> fst (last df) - fst (hd df) < day) \<and>
         (0 < days (fst (last df) - fst (hd df)) \<and> 0 < snd (last df) / ib \<longrightarrow>
            calculate_cagr ib df =
              Inr (Percent (((snd (last df) / ib) powr
                               (365 / real_of_int (days (fst (last df) - fst (hd df)))) - 1) * 100)))"
proof -
  let ?d = "days (fst (last df) - fst (hd df))"
  have le: "real_of_int ?d / 365 \<le> 0 \<longleftrightarrow> ?d \<le> 0" by (simp add: divide_le_0_iff)
  have inv: "1 / (real_of_int ?d / 365) = 365 / real_of_int ?d" by simp
  have na: "calculate_cagr ib df = Inr NA \<longleftrightarrow> ?d \<le> 0"
    using assms le by (simp add: calculate_cagr_def Let_def)
  have pc: "0 < ?d \<Longrightarrow>
            calculate_cagr ib df =
              Inr (Percent (((snd (last df) / ib) powr (365 / real_of_int ?d) - 1) * 100))"
    using assms le inv by (simp add: calculate_cagr_def Let_def)
  have ex: "\<exists>r. calculate_cagr ib df = Inr r"
    using assms by (simp add: calculate_cagr_def Let_def)
  from ex na pc show ?thesis by (simp add: days_le_0)
qed

text \<open>The theorem at a series of 365 days whose value doubles: 100 percent.\<close>

theorem cagr_whole_days_witness:
  "[(jan30, 10000), (jan30_2023, 20000)] \<noteq> ([] :: (timestamp \<times> real) list) \<and>
   days (jan30_2023 - jan30) = 365 \<and>
   calculate_cagr 10000 [(jan30, 10000), (jan30_2023, 20000)] = Inr (Percent 100)"
proof -
  have h: "[(jan30, 10000), (jan30_2023, 20000)] \<noteq> ([] :: (timestamp \<times> real) list)" by simp
  have d: "days (jan30_2023 - jan30) = 365"
    by (simp add: days_def day_def jan30_def jan30_2023_def)
  from cagr_whole_days [OF h, of 10000] d
  have "calculate_cagr 10000 [(jan30, 10000), (jan30_2023, 20000)] = Inr (Percent 100)"
    by simp
  with h d show ?thesis by simp
qed

text \<open>
  The claim C7 as it stands fails at a series of two records half a day apart: the
  elapsed span is positive and the result is "N/A".
\<close>

theorem half_day_counterexample:
  "jan30 < jan30_noon \<and>
   calculate_cagr 10000 [(jan30, 10000), (jan30_noon, 11000)] = Inr NA"
  by (simp add: calculate_cagr_def days_def day_def jan30_def jan30_noon_def)

section \<open>Properties of the signal engine\<close>

lemma set_signal_fields [simp]:
  "ts (set_signal r) = ts r" "close (set_signal r) = close r"
  "SMA_short (set_signal r) = SMA_short r" "SMA_long (set_signal r) = SMA_long r"
  by (simp_all add: set_signal_def Let_def)

lemma set_signal_value:
  "SMA_short r = Some a \<Longrightarrow> SMA_long r = Some b \<Longrightarrow>
   Signal (set_signal r) = (if a < b then - 1 else if a > b then 1 else 0)"
  by (simp add: set_signal_def gt_nan_def lt_nan_def)

lemma strategy_frame_rows:
  assumes "r \<in> set (strategy_frame sw lw df)"
  shows "\<exists>a b. SMA_short r = Some a \<and> SMA_long r = Some b \<and>
           (Signal r = 1 \<longleftrightarrow> a > b) \<and> (Signal r = - 1 \<longleftrightarrow> a < b) \<and> (Signal r = 0 \<longleftrightarrow> a = b)"
proof -
  from assms obtain r' where r: "r = set_signal r'"
    and d: "SMA_short r' \<noteq> None" "SMA_long r' \<noteq> None"
    by (auto simp: strategy_frame_def Let_def)
  from d obtain a b where ab: "SMA_short r' = Some a" "SMA_long r' = Some b" by auto
  have "Signal r = (if a < b then - 1 else if a > b then 1 else 0)"
    unfolding r using ab by (rule set_signal_value)
  then show ?thesis using ab r by auto
qed

lemma rolling_mean_length [simp]: "length (rolling_mean w xs) = length xs"
  by (simp add: rolling_mean_def)

lemma rolling_mean_nth:
  "t < length xs \<Longrightarrow>
   rolling_mean w xs ! t =
     (if w = 0 \<or> Suc t < w then None
      else Some (sum_list (take w (drop (Suc t - w) xs)) / real w))"
  by (simp add: rolling_mean_def)

lemma rolling_mean_None:
  "t < length xs \<Longrightarrow> 0 < w \<Longrightarrow> rolling_mean w xs ! t = None \<longleftrightarrow> Suc t < w"
  by (simp add: rolling_mean_nth)

lemma filter_upt_ge: "filter (\<lambda>t. m \<le> t) [0 ..< n] = [m ..< n]"
proof (induction n)
  case 0
  then show ?case by simp
next
  case (Suc n)
  then show ?case by (cases "m \<le> n") auto
qed

lemma map_nth_upt_drop: "map ((!) xs) [m ..< length xs] = drop m xs"
proof -
  have "drop m xs = drop m (map ((!) xs) [0 ..< length xs])" by (simp add: map_nth)
  also have "\<dots> = map ((!) xs) (drop m [0 ..< length xs])" by (simp add: drop_map)
  also have "\<dots> = map ((!) xs) [m ..< length xs]" by simp
  finally show ?thesis by simp
qed

lemma zip_columns:
  "length ys = length xs \<Longrightarrow> length zs = length xs \<Longrightarrow>
   zip xs (zip ys zs) = map (\<lambda>t. (xs ! t, ys ! t, zs ! t)) [0 ..< length xs]"
  by (rule nth_equalityI) simp_all

lemma strategy_frame_upt:
  assumes "0 < sw" and "0 < lw"
  shows "strategy_frame sw lw df =
           map (\<lambda>t. set_signal ((df ! t)\<lparr>SMA_short := rolling_mean sw (map close df) ! t,
                                         SMA_long := rolling_mean lw (map close df) ! t\<rparr>))
               [max sw lw - 1 ..< length df]"
proof -
  let ?c = "map close df"
  let ?h = "\<lambda>t. (df ! t)\<lparr>SMA_short := rolling_mean sw ?c ! t, SMA_long := rolling_mean lw ?c ! t\<rparr>"
  have z: "map (\<lambda>(r, a, b). r\<lparr>SMA_short := a, SMA_long := b\<rparr>)
             (zip df (zip (rolling_mean sw ?c) (rolling_mean lw ?c))) =
           map ?h [0 ..< length df]"
    by (simp add: zip_columns)
  have f: "filter (\<lambda>r. SMA_short r \<noteq> None \<and> SMA_long r \<noteq> None) (map ?h [0 ..< length df]) =
           map ?h (filter (\<lambda>t. max sw lw - 1 \<le> t) [0 ..< length df])"
    unfolding filter_map
    by (rule arg_cong [where f = "map ?h"], rule filter_cong)
       (use assms in \<open>auto simp: rolling_mean_nth\<close>)
  show ?thesis
    unfolding strategy_frame_def Let_def z f filter_upt_ge by simp
qed

lemma strategy_frame_columns:
  assumes "0 < sw" and "0 < lw"
  shows "map ts (strategy_frame sw lw df) = drop (max sw lw - 1) (map ts df)"
    and "map close (strategy_frame sw lw df) = drop (max sw lw - 1) (map close df)"
    and "map SMA_short (strategy_frame sw lw df) =
           drop (max sw lw - 1) (rolling_mean sw (map close df))"
    and "map SMA_long (strategy_frame sw lw df) =
           drop (max sw lw - 1) (rolling_mean lw (map close df))"
proof -
  let ?m = "max sw lw - 1"
  have a: "map f (map ((!) df) [?m ..< length df]) = drop ?m (map f df)" for f :: "row \<Rightarrow> 'b"
    by (simp only: map_nth_upt_drop drop_map)
  show "map ts (strategy_frame sw lw df) = drop ?m (map ts df)"
    using a [of ts] by (simp add: strategy_frame_upt [OF assms] comp_def)
  show "map close (strategy_frame sw lw df) = drop ?m (map close df)"
    using a [of close] by (simp add: strategy_frame_upt [OF assms] comp_def)
  have "map SMA_short (strategy_frame sw lw df) =
          map ((!) (rolling_mean sw (map close df))) [?m ..< length (rolling_mean sw (map close df))]"
    by (simp add: strategy_frame_upt [OF assms] comp_def)
  then show "map SMA_short (strategy_frame sw lw df) = drop ?m (rolling_mean sw (map close df))"
    by (simp only: map_nth_upt_drop)
  have "map SMA_long (strategy_frame sw lw df) =
          map ((!) (rolling_mean lw (map close df))) [?m ..< length (rolling_mean lw (map close df))]"
    by (simp add: strategy_frame_upt [OF assms] comp_def)
  then show "map SMA_long (strategy_frame sw lw df) = drop ?m (rolling_mean lw (map close df))"
    by (simp only: map_nth_upt_drop)
qed

lemma apply_strategy_loop_other:
  "apply_strategy_loop sw lw ss d = Inr d' \<Longrightarrow> s \<notin> set ss \<Longrightarrow> d' s = d s"
  by (induction ss arbitrary: d) (auto split: option.splits)

lemma apply_strategy_loop_frames:
  "apply_strategy_loop sw lw ss d = Inr d' \<Longrightarrow> s \<in> set ss \<Longrightarrow>
   \<exists>df0 df. d s = Some df0 \<and> d' s = Some (strategy_frame sw lw df)"
proof (induction ss arbitrary: d)
  case Nil
  then show ?case by simp
next
  case (Cons a ss)
  from Cons.prems(1) obtain dfa where da: "d a = Some dfa"
    and rest: "apply_strategy_loop sw lw ss (d(a \<mapsto> strategy_frame sw lw dfa)) = Inr d'"
    by (auto split: option.splits)
  show ?case
  proof (cases "s \<in> set ss")
    case True
    from Cons.IH [OF rest True] obtain df0 df where
      "(d(a \<mapsto> strategy_frame sw lw dfa)) s = Some df0" "d' s = Some (strategy_frame sw lw df)"
      by blast
    then show ?thesis using da by (cases "s = a") auto
  next
    case False
    with Cons.prems(2) have sa: "s = a" by simp
    from apply_strategy_loop_other [OF rest False]
    have "d' s = Some (strategy_frame sw lw dfa)" using sa by simp
    then show ?thesis using da sa by blast
  qed
qed

lemma apply_strategy_loop_distinct:
  "apply_strategy_loop sw lw ss d = Inr d' \<Longrightarrow> distinct ss \<Longrightarrow> s \<in> set ss \<Longrightarrow>
   d s = Some df0 \<Longrightarrow> d' s = Some (strategy_frame sw lw df0)"
proof (induction ss arbitrary: d)
  case Nil
  then show ?case by simp
next
  case (Cons a ss)
  from Cons.prems(1) obtain dfa where da: "d a = Some dfa"
    and rest: "apply_strategy_loop sw lw ss (d(a \<mapsto> strategy_frame sw lw dfa)) = Inr d'"
    by (auto split: option.splits)
  show ?case
  proof (cases "s = a")
    case True
    with Cons.prems(2) have "s \<notin> set ss" by simp
    from apply_strategy_loop_other [OF rest this] show ?thesis
      using True da Cons.prems(4) by simp
  next
    case False
    with Cons.prems have "s \<in> set ss" "distinct ss" "(d(a \<mapsto> strategy_frame sw lw dfa)) s = Some df0"
      by auto
    with Cons.IH [OF rest] show ?thesis by blast
  qed
qed

text \<open>
  C9. After \<^verbatim>\<open>apply_strategy\<close>, in the frame of every instrument, each row has both
  averages, and its signal is 1 exactly when the short average is above the long one,
  -1 exactly when it is below, 0 exactly when they are equal. When no symbol is listed
  twice and both windows are positive, the frame is the fetched one without its first
  \<open>max short long - 1\<close> rows, which are the rows where an average is undefined, and
  the two columns hold the rolling means of the fetched closes.
\<close>

theorem apply_strategy_signals:
  assumes "apply_strategy self = Inr self'" and "s \<in> set (s_symbols self)"
  shows "\<exists>df0 df. s_data self s = Some df0 \<and> s_data self' s = Some df \<and>
           (\<forall>r \<in> set df. \<exists>a b. SMA_short r = Some a \<and> SMA_long r = Some b \<and>
              (Signal r = 1 \<longleftrightarrow> a > b) \<and> (Signal r = - 1 \<longleftrightarrow> a < b) \<and>
              (Signal r = 0 \<longleftrightarrow> a = b)) \<and>
           (distinct (s_symbols self) \<and> 0 < short_window self \<and> 0 < long_window self \<longrightarrow>
              map ts df = drop (max (short_window self) (long_window self) - 1) (map ts df0) \<and>
              map close df = drop (max (short_window self) (long_window self) - 1) (map close df0) \<and>
              map SMA_short df =
                drop (max (short_window self) (long_window self) - 1)
                     (rolling_mean (short_window self) (map close df0)) \<and>
              map SMA_long df =
                drop (max (short_window self) (long_window self) - 1)
                     (rolling_mean (long_window self) (map close df0)) \<and>
              (\<forall>t < length df0.
                 (rolling_mean (short_window self) (map close df0) ! t = None \<or>
                  rolling_mean (long_window self) (map close df0) ! t = None) \<longleftrightarrow>
                 t < max (short_window self) (long_window self) - 1))"
proof -
  let ?sw = "short_window self" and ?lw = "long_window self"
  from assms(1) obtain d' where
    lp: "apply_strategy_loop ?sw ?lw (s_symbols self) (s_data self) = Inr d'"
    and s': "self' = self\<lparr>s_data := d'\<rparr>"
    by (auto simp: apply_strategy_def split: sum.splits)
  from apply_strategy_loop_frames [OF lp assms(2)] obtain df0 df1 where
    d0: "s_data self s = Some df0" and d1: "d' s = Some (strategy_frame ?sw ?lw df1)"
    by blast
  have rows: "\<forall>r \<in> set (strategy_frame ?sw ?lw df1).
      \<exists>a b. SMA_short r = Some a \<and> SMA_long r = Some b \<and>
        (Signal r = 1 \<longleftrightarrow> a > b) \<and> (Signal r = - 1 \<longleftrightarrow> a < b) \<and> (Signal r = 0 \<longleftrightarrow> a = b)"
    using strategy_frame_rows by blast
  have exact: "strategy_frame ?sw ?lw df1 = strategy_frame ?sw ?lw df0"
    if "distinct (s_symbols self)"
    using apply_strategy_loop_distinct [OF lp that assms(2) d0] d1 by simp
  have undefined_rows: "\<forall>t < length df0.
         (rolling_mean ?sw (map close df0) ! t = None \<or>
          rolling_mean ?lw (map close df0) ! t = None) \<longleftrightarrow> t < max ?sw ?lw - 1"
    if "0 < ?sw" "0 < ?lw"
    using that by (auto simp: rolling_mean_None)
  show ?thesis
    using d0 d1 s' rows exact undefined_rows strategy_frame_columns [of ?sw ?lw df0]
    by (intro exI [of _ df0] exI [of _ "strategy_frame ?sw ?lw df1"]) auto
qed

text \<open>
  The theorem at the object \<open>crossover\<close>, whose prepared frame is \<open>crossover_frame\<close>.
\<close>

theorem apply_strategy_signals_witness:
  "apply_strategy crossover = Inr (crossover\<lparr>s_data := [''BTC'' \<mapsto> crossover_frame]\<rparr>) \<and>
   ''BTC'' \<in> set (s_symbols crossover) \<and>
   distinct (s_symbols crossover) \<and> 0 < short_window crossover \<and> 0 < long_window crossover \<and>
   map Signal crossover_frame = [1, - 1, 0] \<and>
   map ts crossover_frame = drop 1 [jan30, jan31, feb01, feb02] \<and>
   map SMA_long crossover_frame = drop 1 [None, Some 105, Some 105, Some 100]"
proof -
  have sf: "strategy_frame (Suc 0) 2 [bar jan30 100, bar jan31 110, bar feb01 100, bar feb02 100] =
              crossover_frame"
    by code_simp
  have h1: "apply_strategy crossover = Inr (crossover\<lparr>s_data := [''BTC'' \<mapsto> crossover_frame]\<rparr>)"
    by (simp add: apply_strategy_def crossover_def sf)
  have h2: "''BTC'' \<in> set (s_symbols crossover)" by (simp add: crossover_def)
  have h3: "distinct (s_symbols crossover) \<and> 0 < short_window crossover \<and> 0 < long_window crossover"
    by (simp add: crossover_def)
  have d0: "s_data crossover ''BTC'' = Some [bar jan30 100, bar jan31 110, bar feb01 100, bar feb02 100]"
    by (simp add: crossover_def)
  have r: "rolling_mean 2 (map close [bar jan30 100, bar jan31 110, bar feb01 100, bar feb02 100]) =
             [None, Some 105, Some 105, Some 100]"
    by code_simp
  have t: "map ts [bar jan30 100, bar jan31 110, bar feb01 100, bar feb02 100] = [jan30, jan31, feb01, feb02]"
    by (simp add: bar_def)
  have sg: "map Signal crossover_frame = [1, - 1, 0]" by (simp add: crossover_frame_def)
  have lw: "long_window crossover = 2" and sw: "short_window crossover = 1"
    by (simp_all add: crossover_def)
  from apply_strategy_signals [OF h1 h2] obtain df0 df where
    a: "s_data crossover ''BTC'' = Some df0"
    and b: "s_data (crossover\<lparr>s_data := [''BTC'' \<mapsto> crossover_frame]\<rparr>) ''BTC'' = Some df"
    and c: "distinct (s_symbols crossover) \<and> 0 < short_window crossover \<and> 0 < long_window crossover \<longrightarrow>
              map ts df = drop (max (short_window crossover) (long_window crossover) - 1) (map ts df0) \<and>
              map close df = drop (max (short_window crossover) (long_window crossover) - 1) (map close df0) \<and>
              map SMA_short df =
                drop (max (short_window crossover) (long_window crossover) - 1)
                     (rolling_mean (short_window crossover) (map close df0)) \<and>
              map SMA_long df =
                drop (max (short_window crossover) (long_window crossover) - 1)
                     (rolling_mean (long_window crossover) (map close df0)) \<and>
              (\<forall>t < length df0.
                 (rolling_mean (short_window crossover) (map close df0) ! t = None \<or>
                  rolling_mean (long_window crossover) (map close df0) ! t = None) \<longleftrightarrow>
                 t < max (short_window crossover) (long_window crossover) - 1)"
    by blast
  have e0: "df0 = [bar jan30 100, bar jan31 110, bar feb01 100, bar feb02 100]"
    using a d0 by simp
  have e1: "df = crossover_frame" using b by simp
  from c h3 have "map ts df = drop (max (short_window crossover) (long_window crossover) - 1) (map ts df0) \<and>
       map SMA_long df =
                drop (max (short_window crossover) (long_window crossover) - 1)
                     (rolling_mean (long_window crossover) (map close df0))"
    by blast
  then have "map ts crossover_frame = drop 1 [jan30, jan31, feb01, feb02] \<and>
        map SMA_long crossover_frame = drop 1 [None, Some 105, Some 105, Some 100]"
    unfolding e0 e1 sw lw r t by simp
  with h1 h2 h3 sg show ?thesis by blast
qed

lemma date_loop_dates:
  "date_loop ds self pv = Inr (self', h) \<Longrightarrow> map fst h = ds"
proof (induction ds arbitrary: self pv self' h)
  case Nil
  then show ?case by simp
next
  case (Cons d ds)
  from Cons.prems obtain self1 pv1 dv1 self2 h2 where
    "date_loop ds self1 pv1 = Inr (self2, h2)" and "h = (d, pv1 + dv1) # h2"
    by (auto split: sum.splits prod.splits)
  with Cons.IH show ?case by auto
qed

lemma find_filter:
  "(\<And>x. P x \<Longrightarrow> Q x) \<Longrightarrow> find P (filter Q xs) = find P xs"
  by (induction xs) auto

lemma restricted_fields [simp]:
  "s_symbols (restricted D self) = s_symbols self"
  "positions (restricted D self) = positions self"
  "s_trading_fee (restricted D self) = s_trading_fee self"
  "s_initial_balance (restricted D self) = s_initial_balance self"
  "s_data (restricted D self) = restrict_to D (s_data self)"
  "restricted D (self\<lparr>positions := p\<rparr>) = (restricted D self)\<lparr>positions := p\<rparr>"
  by (simp_all add: restricted_def)

lemma symbol_step_restricted:
  assumes "date \<in> set D"
  shows "symbol_step date (restricted D self, pv, dv) s = lift3 D (symbol_step date (self, pv, dv) s)"
proof (cases "s_data self s")
  case None
  then show ?thesis by (simp add: symbol_step_def lift3_def restrict_to_def)
next
  case (Some df)
  have f: "find (\<lambda>r. ts r = date) (filter (\<lambda>r. ts r \<in> set D) df) = find (\<lambda>r. ts r = date) df"
    using assms by (intro find_filter) simp
  show ?thesis
    using Some
    by (simp add: symbol_step_def lift3_def restrict_to_def f Let_def split: option.splits)
qed

lemma symbol_loop_restricted:
  assumes "date \<in> set D"
  shows "symbol_loop date (restricted D self, pv, dv) ss = lift3 D (symbol_loop date (self, pv, dv) ss)"
proof (induction ss arbitrary: self pv dv)
  case Nil
  then show ?case by (simp add: lift3_def)
next
  case (Cons s ss)
  show ?case
  proof (cases "symbol_step date (self, pv, dv) s")
    case (Inl e)
    then show ?thesis by (simp add: symbol_step_restricted [OF assms] lift3_def)
  next
    case (Inr st)
    obtain x p d where st: "st = (x, p, d)" by (cases st)
    show ?thesis
      using Inr st Cons.IH [of x p d]
      by (simp add: symbol_step_restricted [OF assms] lift3_def)
  qed
qed

lemma date_loop_restricted:
  assumes "set ds \<subseteq> set D"
  shows "date_loop ds (restricted D self) pv = lift2 D (date_loop ds self pv)"
  using assms
proof (induction ds arbitrary: self pv)
  case Nil
  then show ?case by (simp add: lift2_def)
next
  case (Cons d ds)
  then have d: "d \<in> set D" and sub: "set ds \<subseteq> set D" by auto
  show ?case
  proof (cases "symbol_loop d (self, pv, 0) (s_symbols self)")
    case (Inl e)
    then show ?thesis by (simp add: symbol_loop_restricted [OF d] lift3_def lift2_def)
  next
    case (Inr st)
    obtain x p dv where st: "st = (x, p, dv)" by (cases st)
    show ?thesis
      using Inr st Cons.IH [OF sub, of x p]
      by (simp add: symbol_loop_restricted [OF d] lift3_def lift2_def split: sum.splits)
  qed
qed

text \<open>
  C10. \<^verbatim>\<open>run_backtest\<close> of the signal engine records one value per date of the frame of
  the first symbol, in that order. A row of another frame whose date is not in that index
  has no effect: without all such rows the run gives the same records, the same final
  positions and the same exception.
\<close>

theorem first_index_drives:
  assumes "s_symbols self = s0 # rest" and "s_data self s0 = Some df0"
  shows "(\<forall>self' h. strategy_run_backtest self = Inr (self', h) \<longrightarrow> map fst h = map ts df0) \<and>
         history_of (strategy_run_backtest (self\<lparr>s_data := restrict_to (map ts df0) (s_data self)\<rparr>)) =
           history_of (strategy_run_backtest self) \<and>
         (\<forall>s. positions_of (strategy_run_backtest (self\<lparr>s_data := restrict_to (map ts df0) (s_data self)\<rparr>)) s =
           positions_of (strategy_run_backtest self) s) \<and>
         error_of (strategy_run_backtest (self\<lparr>s_data := restrict_to (map ts df0) (s_data self)\<rparr>)) =
           error_of (strategy_run_backtest self)"
proof -
  let ?D = "map ts df0"
  have run: "strategy_run_backtest self = date_loop ?D self (s_initial_balance self)"
    using assms by (simp add: strategy_run_backtest_def)
  have same: "filter (\<lambda>r. ts r \<in> set ?D) df0 = df0" by (induction df0) auto
  have "strategy_run_backtest (restricted ?D self) =
          date_loop ?D (restricted ?D self) (s_initial_balance self)"
    using assms by (simp add: strategy_run_backtest_def restrict_to_def same)
  also have "\<dots> = lift2 ?D (date_loop ?D self (s_initial_balance self))"
    by (rule date_loop_restricted) simp
  finally have r: "strategy_run_backtest (self\<lparr>s_data := restrict_to ?D (s_data self)\<rparr>) =
                     lift2 ?D (strategy_run_backtest self)"
    by (simp add: run restricted_def)
  have dates: "\<forall>self' h. strategy_run_backtest self = Inr (self', h) \<longrightarrow> map fst h = ?D"
    unfolding run using date_loop_dates by blast
  show ?thesis
    unfolding r using dates
    by (auto simp: lift2_def history_of_def positions_of_def error_of_def split: sum.splits)
qed

text \<open>
  The theorem at \<open>two_assets\<close>: two records, for the two dates of BTC, and the row of
  ETH on 30 January, a Buy, changes nothing.
\<close>

theorem first_index_drives_witness:
  "s_symbols two_assets = ''BTC'' # [''ETH''] \<and>
   s_data two_assets ''BTC'' = Some two_assets_frame \<and>
   map ts (the (s_data two_assets ''ETH'')) = [jan30, jan31, feb01] \<and>
   history_of (strategy_run_backtest two_assets) = Some [(jan31, 14995), (feb01, 159895 / 11)] \<and>
   history_of (strategy_run_backtest
     (two_assets\<lparr>s_data := restrict_to (map ts two_assets_frame) (s_data two_assets)\<rparr>)) =
     Some [(jan31, 14995), (feb01, 159895 / 11)]"
proof -
  have h1: "s_symbols two_assets = ''BTC'' # [''ETH'']" by (simp add: two_assets_def)
  have h2: "s_data two_assets ''BTC'' = Some two_assets_frame"
    by (simp add: two_assets_def two_assets_frame_def)
  have e: "map ts (the (s_data two_assets ''ETH'')) = [jan30, jan31, feb01]"
    by (simp add: two_assets_def)
  have r: "history_of (strategy_run_backtest two_assets) = Some [(jan31, 14995), (feb01, 159895 / 11)]"
    by code_simp
  from first_index_drives [OF h1 h2] have
    "history_of (strategy_run_backtest
       (two_assets\<lparr>s_data := restrict_to (map ts two_assets_frame) (s_data two_assets)\<rparr>)) =
     history_of (strategy_run_backtest two_assets)"
    by blast
  with h1 h2 e r show ?thesis by simp
qed

lemma symbol_step_frame:
  assumes "symbol_step date (self, pv, dv) s = Inr (self', pv', dv')"
  shows "self' = self\<lparr>positions := positions self'\<rparr> \<and>
         (\<forall>t. t \<noteq> s \<longrightarrow> positions self' t = positions self t)"
  using assms
  by (auto simp: symbol_step_def Let_def split: option.splits if_splits)

lemma symbol_loop_frame:
  "symbol_loop date (self, pv, dv) ss = Inr (self', pv', dv') \<Longrightarrow>
   self' = self\<lparr>positions := positions self'\<rparr> \<and>
   (\<forall>t. t \<notin> set ss \<longrightarrow> positions self' t = positions self t)"
proof (induction ss arbitrary: self pv dv)
  case Nil
  then show ?case by simp
next
  case (Cons s ss)
  from Cons.prems obtain x p d where
    st: "symbol_step date (self, pv, dv) s = Inr (x, p, d)"
    and lp: "symbol_loop date (x, p, d) ss = Inr (self', pv', dv')"
    by (auto split: sum.splits)
  from symbol_step_frame [OF st] have
    s1: "x = self\<lparr>positions := positions x\<rparr>"
    and o1: "\<forall>t. t \<noteq> s \<longrightarrow> positions x t = positions self t"
    by auto
  from Cons.IH [OF lp] have
    s2: "self' = x\<lparr>positions := positions self'\<rparr>"
    and o2: "\<forall>t. t \<notin> set ss \<longrightarrow> positions self' t = positions x t"
    by auto
  have "self' = self\<lparr>positions := positions self'\<rparr>"
    by (subst s2, subst s1) simp
  with o1 o2 show ?case by simp
qed

lemma date_loop_frame:
  "date_loop ds self pv = Inr (self', h) \<Longrightarrow>
   self' = self\<lparr>positions := positions self'\<rparr> \<and>
   (\<forall>t. t \<notin> set (s_symbols self) \<longrightarrow> positions self' t = positions self t)"
proof (induction ds arbitrary: self pv h)
  case Nil
  then show ?case by simp
next
  case (Cons d ds)
  from Cons.prems obtain x p dv h' where
    sl: "symbol_loop d (self, pv, 0) (s_symbols self) = Inr (x, p, dv)"
    and dl: "date_loop ds x p = Inr (self', h')"
    by (auto split: sum.splits prod.splits)
  from symbol_loop_frame [OF sl] have
    s1: "x = self\<lparr>positions := positions x\<rparr>"
    and o1: "\<forall>t. t \<notin> set (s_symbols self) \<longrightarrow> positions x t = positions self t"
    by auto
  from Cons.IH [OF dl] have
    s2: "self' = x\<lparr>positions := positions self'\<rparr>"
    and o2: "\<forall>t. t \<notin> set (s_symbols x) \<longrightarrow> positions self' t = positions x t"
    by auto
  have sy: "s_symbols x = s_symbols self" by (subst s1) simp
  have "self' = self\<lparr>positions := positions self'\<rparr>"
    by (subst s2, subst s1) simp
  with o1 o2 sy show ?case by simp
qed

lemma strategy_pipeline_frame:
  assumes "strategy_pipeline fetched self = Inr (self', h)"
  shows "\<exists>d. self' = self\<lparr>s_data := d, positions := positions self'\<rparr> \<and>
         (\<forall>t. t \<notin> set (s_symbols self) \<longrightarrow> positions self' t = positions self t)"
proof -
  from assms obtain d where
    run: "strategy_run_backtest (self\<lparr>s_data := d\<rparr>) = Inr (self', h)"
    by (auto simp: strategy_pipeline_def apply_strategy_def split: sum.splits)
  then obtain ds where "date_loop ds (self\<lparr>s_data := d\<rparr>) (s_initial_balance self) = Inr (self', h)"
    by (auto simp: strategy_run_backtest_def split: list.splits option.splits)
  from date_loop_frame [OF this] show ?thesis by auto
qed

lemma strategy_pipeline_data:
  "strategy_pipeline fetched (self\<lparr>s_data := d\<rparr>) = strategy_pipeline fetched self"
  by (simp add: strategy_pipeline_def)

lemma strategy_run_twice_same:
  assumes "\<forall>s \<in> set (s_symbols self).
             positions_of (strategy_pipeline fetched self) s = positions self s"
  shows "strategy_run_twice fetched self =
           (case strategy_pipeline fetched self of Inl e \<Rightarrow> Inl e
            | Inr (self', h) \<Rightarrow> Inr (h, h))"
proof (cases "strategy_pipeline fetched self")
  case (Inl e)
  then show ?thesis by (simp add: strategy_run_twice_def)
next
  case (Inr r)
  obtain self' h where r: "r = (self', h)" by (cases r)
  from strategy_pipeline_frame [OF Inr [unfolded r]] obtain d where
    s: "self' = self\<lparr>s_data := d, positions := positions self'\<rparr>"
    and o: "\<forall>t. t \<notin> set (s_symbols self) \<longrightarrow> positions self' t = positions self t"
    by auto
  have "positions self' t = positions self t" for t
    using assms o Inr r by (cases "t \<in> set (s_symbols self)") (auto simp: positions_of_def)
  then have "positions self' = positions self" by (rule ext)
  with s have "self' = self\<lparr>s_data := d\<rparr>" by simp
  then have "strategy_pipeline fetched self' = strategy_pipeline fetched self"
    by (simp add: strategy_pipeline_data)
  with Inr r show ?thesis by (simp add: strategy_run_twice_def)
qed

text \<open>
  C6, as amended. A run carries over the weight map (rebalancing engine) or the position
  map (signal engine) and nothing else: when the first run leaves every symbol's weight,
  or position, as it found it, a second run on the same object returns what the first
  returned. The metrics are functions of the value series and the initial balance.
\<close>

theorem rerun_same_state:
  "((\<forall>s \<in> set (symbols self). weights_of (run_backtest self) s = weights self s) \<longrightarrow>
      run_twice self =
        (case run_backtest self of Inl e \<Rightarrow> Inl e | Inr (self', df) \<Rightarrow> Inr (df, df))) \<and>
   ((\<forall>s \<in> set (s_symbols st). positions_of (strategy_pipeline fetched st) s = positions st s) \<longrightarrow>
      strategy_run_twice fetched st =
        (case strategy_pipeline fetched st of Inl e \<Rightarrow> Inl e | Inr (st', h) \<Rightarrow> Inr (h, h)))"
  using run_twice_same strategy_run_twice_same by blast

text \<open>
  The theorem at \<open>late_listing\<close>, whose one rebalance is skipped, and at \<open>round_trip\<close>,
  which ends flat.
\<close>

theorem rerun_same_state_witness:
  "weights_of (run_backtest late_listing) ''A'' = weights late_listing ''A'' \<and>
   weights_of (run_backtest late_listing) ''B'' = weights late_listing ''B'' \<and>
   run_twice late_listing =
     Inr (\<lparr>index = [jan30, jan31, feb01, feb02], Portfolio_Return = [0, 1 / 20, 1 / 20, 1 / 20],
           Portfolio_Value = [9985, 41937 / 4, 9985, 41937 / 4]\<rparr>,
          \<lparr>index = [jan30, jan31, feb01, feb02], Portfolio_Return = [0, 1 / 20, 1 / 20, 1 / 20],
           Portfolio_Value = [9985, 41937 / 4, 9985, 41937 / 4]\<rparr>) \<and>
   positions_of (strategy_pipeline (s_data (round_trip (1 / 1000))) (round_trip (1 / 1000))) ''BTC'' =
     positions (round_trip (1 / 1000)) ''BTC'' \<and>
   strategy_run_twice (s_data (round_trip (1 / 1000))) (round_trip (1 / 1000)) =
     Inr ([(feb01, 19990), (feb02, 19980)], [(feb01, 19990), (feb02, 19980)])"
proof -
  let ?df = "\<lparr>index = [jan30, jan31, feb01, feb02], Portfolio_Return = [0, 1 / 20, 1 / 20, 1 / 20],
           Portfolio_Value = [9985, 41937 / 4, 9985, 41937 / 4]\<rparr>"
  let ?h = "[(feb01, 19990), (feb02, 19980 :: real)]"
  let ?rt = "round_trip (1 / 1000)"
  have h1: "\<forall>s \<in> set (symbols late_listing).
      weights_of (run_backtest late_listing) s = weights late_listing s"
    by code_simp
  have h2: "\<forall>s \<in> set (s_symbols ?rt).
      positions_of (strategy_pipeline (s_data ?rt) ?rt) s = positions ?rt s"
    by code_simp
  have v1: "map_sum id snd (run_backtest late_listing) = Inr ?df" by code_simp
  have v2: "map_sum id snd (strategy_pipeline (s_data ?rt) ?rt) = Inr ?h" by code_simp
  from rerun_same_state [of late_listing ?rt "s_data ?rt"] h1 h2 have
    a: "run_twice late_listing =
        (case run_backtest late_listing of Inl e \<Rightarrow> Inl e | Inr (self', df) \<Rightarrow> Inr (df, df))"
    and b: "strategy_run_twice (s_data ?rt) ?rt =
        (case strategy_pipeline (s_data ?rt) ?rt of Inl e \<Rightarrow> Inl e | Inr (st', h) \<Rightarrow> Inr (h, h))"
    by blast+
  have a': "run_twice late_listing = Inr (?df, ?df)"
    using v1 unfolding a by (cases "run_backtest late_listing") auto
  have b': "strategy_run_twice (s_data ?rt) ?rt = Inr (?h, ?h)"
    using v2 unfolding b by (cases "strategy_pipeline (s_data ?rt) ?rt") auto
  have w: "weights_of (run_backtest late_listing) ''A'' = weights late_listing ''A'' \<and>
           weights_of (run_backtest late_listing) ''B'' = weights late_listing ''B''"
    using h1 by (simp add: late_listing_def)
  have q: "positions_of (strategy_pipeline (s_data ?rt) ?rt) ''BTC'' = positions ?rt ''BTC''"
    using h2 by (simp add: round_trip_def)
  show ?thesis using w q a' b' by blast
qed

text \<open>
  The claim C6 as it stands fails on an object that runs twice. In \<open>drift\<close> the first
  run leaves the weights 4/5 and 1/5, and the second run computes other returns and other
  values from them. In \<open>open_end\<close> the first run ends with the position open, and the
  second run, which starts again from the initial balance, counts that position on top.
\<close>

theorem rerun_differs_counterexample:
  "run_twice drift =
     Inr (\<lparr>index = [jan31, feb01, feb02], Portfolio_Return = [0, 1 / 2, 1 / 20],
           Portfolio_Value = [9985, 29955 / 2, 125811 / 8]\<rparr>,
          \<lparr>index = [jan31, feb01, feb02], Portfolio_Return = [0, 4 / 5, 2 / 25],
           Portfolio_Value = [9985, 17973, 485271 / 25]\<rparr>) \<and>
   strategy_run_twice (s_data open_end) open_end =
     Inr ([(jan31, 19990), (feb01, 229890 / 11)], [(jan31, 20000), (feb01, 230000 / 11)])"
  by code_simp

text \<open>
  C2, at a concrete run with any fee \<open>f\<close>. The claim: a Buy at the close 100 from a balance
  of 10000 gives the quantity 100, and a Sell at the same close brings the recorded value
  to \<open>10000 * (1 - f) * (1 - f)\<close>. The quantity is 100. The Buy takes the fee from
  \<^verbatim>\<open>portfolio_value\<close> and not the amount invested, the Sell adds the proceeds: the
  recorded values are \<open>20000 - 10000 * f\<close> and \<open>20000 * (1 - f)\<close>.
\<close>

theorem round_trip_doubles:
  "strategy_frame 1 3 [bar jan30 10, bar jan31 130, bar feb01 100, bar feb02 100] = round_trip_frame \<and>
   positions_of (date_loop [feb01] ((round_trip f)\<lparr>s_data := [''BTC'' \<mapsto> round_trip_frame]\<rparr>) 10000)
     ''BTC'' = Some 100 \<and>
   history_of (strategy_pipeline (s_data (round_trip f)) (round_trip f)) =
     Some [(feb01, 20000 - 10000 * f), (feb02, 20000 * (1 - f))]"
proof -
  have sf: "strategy_frame 1 3 [bar jan30 10, bar jan31 130, bar feb01 100, bar feb02 100] =
              round_trip_frame"
    by code_simp
  have ne: "feb01 \<noteq> feb02" by (simp add: feb01_def feb02_def)
  have p: "positions_of (date_loop [feb01] ((round_trip f)\<lparr>s_data := [''BTC'' \<mapsto> round_trip_frame]\<rparr>) 10000)
     ''BTC'' = Some 100"
    by (simp add: positions_of_def round_trip_def round_trip_frame_def symbol_step_def Let_def)
  have ap: "apply_strategy (round_trip f) =
              Inr ((round_trip f)\<lparr>s_data := [''BTC'' \<mapsto> round_trip_frame]\<rparr>)"
    using sf by (simp add: apply_strategy_def round_trip_def)
  have "history_of (strategy_run_backtest ((round_trip f)\<lparr>s_data := [''BTC'' \<mapsto> round_trip_frame]\<rparr>)) =
     Some [(feb01, 20000 - 10000 * f), (feb02, 20000 * (1 - f))]"
    using ne
    by (simp add: history_of_def strategy_run_backtest_def round_trip_def round_trip_frame_def
        symbol_step_def Let_def algebra_simps)
  then have h: "history_of (strategy_pipeline (s_data (round_trip f)) (round_trip f)) =
     Some [(feb01, 20000 - 10000 * f), (feb02, 20000 * (1 - f))]"
    by (simp add: strategy_pipeline_def ap)
  from sf p h show ?thesis by (intro conjI)
qed

end
